theory Spec2Isabelle
  imports Main
begin

section \<open>JavaScript values\<close>

text \<open>
  The server code is dynamically typed, and several of its branches are decided by what a
  property access on the wrong kind of object yields. Values are therefore modelled as one
  datatype. Numbers are the integers plus \<open>NaN\<close>; an object is the list of its own
  properties in insertion order; a \<open>Set\<close> of the browser code is a duplicate-free list.
\<close>

datatype jsval =
    Undefined
  | Null
  | NaN
  | Num int
  | Bool bool
  | Str string
  | Arr "jsval list"
  | Obj "(string \<times> jsval) list"

datatype js_error =
    TypeError
  | Error string

text \<open>Truthiness, as \<open>!v\<close>, \<open>v && w\<close> and \<open>v || w\<close> read it.\<close>

fun truthy :: "jsval \<Rightarrow> bool" where
  "truthy Undefined = False"
| "truthy Null = False"
| "truthy NaN = False"
| "truthy (Num n) = (n \<noteq> 0)"
| "truthy (Bool b) = b"
| "truthy (Str s) = (s \<noteq> [])"
| "truthy (Arr xs) = True"
| "truthy (Obj kvs) = True"

definition js_or :: "jsval \<Rightarrow> jsval \<Rightarrow> jsval" where
  "js_or a b = (if truthy a then a else b)"

text \<open>
  \<open>v.k\<close>: reading a property of \<open>undefined\<close> or \<open>null\<close> throws a TypeError; a
  property an object does not have is \<open>undefined\<close>; arrays and strings have \<open>length\<close>.
\<close>

fun member :: "jsval \<Rightarrow> string \<Rightarrow> js_error + jsval" where
  "member Undefined k = Inl TypeError"
| "member Null k = Inl TypeError"
| "member (Obj kvs) k = Inr (case map_of kvs k of None \<Rightarrow> Undefined | Some v \<Rightarrow> v)"
| "member (Arr xs) k = Inr (if k = ''length'' then Num (int (length xs)) else Undefined)"
| "member (Str s) k = Inr (if k = ''length'' then Num (int (length s)) else Undefined)"
| "member v k = Inr Undefined"

text \<open>\<open>v[0]\<close>: the first element of an array, the property named \<open>0\<close> of anything else.\<close>

fun index0 :: "jsval \<Rightarrow> js_error + jsval" where
  "index0 (Arr xs) = Inr (case xs of [] \<Rightarrow> Undefined | x # _ \<Rightarrow> x)"
| "index0 (Str s) = Inr (case s of [] \<Rightarrow> Undefined | c # _ \<Rightarrow> Str [c])"
| "index0 v = member v ''0''"

text \<open>
  \<open>const [x] = v\<close>: array destructuring asks \<open>v\<close> for an iterator. Arrays and strings
  have one; \<open>undefined\<close>, \<open>null\<close>, numbers, booleans and plain objects do not, and the
  binding throws a TypeError.
\<close>

fun destructure1 :: "jsval \<Rightarrow> js_error + jsval" where
  "destructure1 (Arr xs) = Inr (case xs of [] \<Rightarrow> Undefined | x # _ \<Rightarrow> x)"
| "destructure1 (Str s) = Inr (case s of [] \<Rightarrow> Undefined | c # _ \<Rightarrow> Str [c])"
| "destructure1 v = Inl TypeError"

text \<open>
  \<open>v > 0\<close> on what the handlers compare: a count or a length, which is a number, or
  \<open>undefined\<close> where the property is missing (\<open>undefined > 0\<close> is false).
\<close>

fun gt0 :: "jsval \<Rightarrow> bool" where
  "gt0 (Num n) = (0 < n)"
| "gt0 (Bool b) = b"
| "gt0 v = False"

fun isNaN :: "jsval \<Rightarrow> bool" where
  "isNaN NaN = True"
| "isNaN v = False"

text \<open>Template literals print a number in decimal.\<close>

fun digits :: "nat \<Rightarrow> string" where
  "digits n = (if n < 10 then [''0123456789'' ! n]
               else digits (n div 10) @ [''0123456789'' ! (n mod 10)])"

declare digits.simps [simp del]

definition show_int :: "int \<Rightarrow> string" where
  "show_int i = (if i < 0 then CHR ''-'' # digits (nat (- i)) else digits (nat i))"

fun join_commas :: "string list \<Rightarrow> string" where
  "join_commas [] = []"
| "join_commas [s] = s"
| "join_commas (s # rest) = s @ CHR '','' # join_commas rest"

fun to_string :: "jsval \<Rightarrow> string" where
  "to_string Undefined = ''undefined''"
| "to_string Null = ''null''"
| "to_string NaN = ''NaN''"
| "to_string (Num n) = show_int n"
| "to_string (Bool b) = (if b then ''true'' else ''false'')"
| "to_string (Str s) = s"
| "to_string (Arr xs) =
     join_commas (map (\<lambda>x. if x = Undefined \<or> x = Null then [] else to_string x) xs)"
| "to_string (Obj kvs) = ''[object Object]''"

section \<open>The persistent store\<close>

text \<open>
  The five tables of \<open>estsbike.sql\<close>, each a list of rows in insertion order, and the two
  AUTO_INCREMENT counters the handlers draw from. The audit timestamps are left out: no
  handler reads them.
  \<^item> \<open>event_types\<close>: \<open>(id, name)\<close>, \<open>id\<close> the primary key, \<open>name\<close> UNIQUE;
  \<^item> \<open>events\<close>: \<open>(id, type_id, name, date)\<close>, \<open>type_id\<close> a foreign key into
    \<open>event_types\<close>, ON DELETE CASCADE;
  \<^item> \<open>members\<close>: \<open>(id, name)\<close>;
  \<^item> \<open>member_preferred_event_types\<close>: \<open>(member_id, event_type_id)\<close>, the pair the primary
    key, both foreign keys ON DELETE CASCADE;
  \<^item> \<open>member_events\<close>: \<open>(member_id, event_id)\<close>, the pair the primary key, both foreign
    keys ON DELETE CASCADE.
\<close>

record store =
  event_types :: "(int \<times> string) list"
  events :: "(int \<times> int \<times> string \<times> string) list"
  members :: "(int \<times> string) list"
  member_preferred_event_types :: "(int \<times> int) list"
  member_events :: "(int \<times> int) list"
  event_types_auto_increment :: int
  members_auto_increment :: int

text \<open>
  What lies outside the repository and varies from call to call: whether the database can
  be reached.
\<close>

record driver =
  reachable :: bool

datatype driver_error =
    ConnectionRefused
  | BindUndefined
  | ParseError
  | DupEntry
  | NoReferencedRow

text \<open>
  The statements of the route modules, under the names of their constants, with the
  parameters bound to their placeholders in order.
\<close>

datatype stmt =
    insertEventType string
  | updateEventType string jsval
  | deleteEventType jsval
  | checkEventsWithType jsval
  | checkMembersWithType jsval
  | getMemberById jsval
  | insertMember string
  | updateMember string jsval
  | deleteMember jsval
  | deleteMemberEvents jsval
  | deletePreferredEventTypes jsval
  | insertPreferredEventTypes "(jsval \<times> int) list"
  | registerMemberEvent jsval jsval
  | deleteMemberEvent jsval jsval
  | checkMemberExists jsval
  | checkEventExists jsval
  | checkMemberPreference jsval jsval

text \<open>
  Binding a numeric parameter: the driver refuses \<open>undefined\<close>. The handlers only ever
  bind a number or \<open>undefined\<close> to an id placeholder.
\<close>

fun bind_id :: "jsval \<Rightarrow> driver_error + int" where
  "bind_id (Num i) = Inr i"
| "bind_id v = Inl BindUndefined"

text \<open>Result rows, and the header a write returns.\<close>

definition name_row :: "int \<times> string \<Rightarrow> jsval" where
  "name_row r = Obj [(''id'', Num (fst r)), (''name'', Str (snd r))]"

definition event_row :: "int \<times> int \<times> string \<times> string \<Rightarrow> jsval" where
  "event_row r = (case r of (i, t, n, d) \<Rightarrow>
     Obj [(''id'', Num i), (''type_id'', Num t), (''name'', Str n), (''date'', Str d)])"

definition count_rows :: "nat \<Rightarrow> jsval" where
  "count_rows n = Arr [Obj [(''count'', Num (int n))]]"

definition header :: "nat \<Rightarrow> int \<Rightarrow> jsval" where
  "header affected insert_id = Obj [(''affectedRows'', Num (int affected)), (''insertId'', Num insert_id)]"

text \<open>
  The engine on one statement, as the schema constrains it: primary and unique keys refuse
  a duplicate, a foreign key refuses a dangling reference and cascades a delete, and a
  failed statement changes nothing. An UPDATE reports the rows it matched.

  \<open>insertPreferredEventTypes\<close> is \<open>INSERT ... VALUES ?\<close>, with one placeholder for the
  whole list of rows, and the gateway sends every statement through
  \<open>connection.execute\<close>, which prepares it on the server. A placeholder stands for one
  value, never for a list of rows: the server refuses to prepare the statement, whatever
  rows are bound and whatever the store holds.
\<close>

fun run :: "store \<Rightarrow> stmt \<Rightarrow> driver_error + jsval \<times> store" where
  "run d (insertEventType n) =
     (if n \<in> snd ` set (event_types d) then Inl DupEntry
      else Inr (header 1 (event_types_auto_increment d),
                d\<lparr>event_types := event_types d @ [(event_types_auto_increment d, n)],
                  event_types_auto_increment := event_types_auto_increment d + 1\<rparr>))"
| "run d (updateEventType n p) =
     (case bind_id p of Inl e \<Rightarrow> Inl e
      | Inr i \<Rightarrow>
          if i \<in> fst ` set (event_types d) \<and> (\<exists>r \<in> set (event_types d). fst r \<noteq> i \<and> snd r = n)
          then Inl DupEntry
          else Inr (header (length (filter (\<lambda>r. fst r = i) (event_types d))) 0,
                    d\<lparr>event_types := map (\<lambda>r. if fst r = i then (i, n) else r) (event_types d)\<rparr>))"
| "run d (deleteEventType p) =
     (case bind_id p of Inl e \<Rightarrow> Inl e
      | Inr i \<Rightarrow>
          if i \<in> fst ` set (event_types d)
          then Inr (header (length (filter (\<lambda>r. fst r = i) (event_types d))) 0,
                    d\<lparr>event_types := filter (\<lambda>r. fst r \<noteq> i) (event_types d),
                      events := filter (\<lambda>r. fst (snd r) \<noteq> i) (events d),
                      member_preferred_event_types :=
                        filter (\<lambda>r. snd r \<noteq> i) (member_preferred_event_types d),
                      member_events :=
                        filter (\<lambda>r. snd r \<notin> fst ` set (filter (\<lambda>e. fst (snd e) = i) (events d)))
                          (member_events d)\<rparr>)
          else Inr (header 0 0, d))"
| "run d (checkEventsWithType p) =
     (case bind_id p of Inl e \<Rightarrow> Inl e
      | Inr i \<Rightarrow> Inr (count_rows (length (filter (\<lambda>r. fst (snd r) = i) (events d))), d))"
| "run d (checkMembersWithType p) =
     (case bind_id p of Inl e \<Rightarrow> Inl e
      | Inr i \<Rightarrow>
          Inr (count_rows (length (filter (\<lambda>r. snd r = i) (member_preferred_event_types d))), d))"
| "run d (getMemberById p) =
     (case bind_id p of Inl e \<Rightarrow> Inl e
      | Inr i \<Rightarrow> Inr (Arr (map name_row (filter (\<lambda>r. fst r = i) (members d))), d))"
| "run d (insertMember n) =
     Inr (header 1 (members_auto_increment d),
          d\<lparr>members := members d @ [(members_auto_increment d, n)],
            members_auto_increment := members_auto_increment d + 1\<rparr>)"
| "run d (updateMember n p) =
     (case bind_id p of Inl e \<Rightarrow> Inl e
      | Inr i \<Rightarrow>
          Inr (header (length (filter (\<lambda>r. fst r = i) (members d))) 0,
               d\<lparr>members := map (\<lambda>r. if fst r = i then (i, n) else r) (members d)\<rparr>))"
| "run d (deleteMember p) =
     (case bind_id p of Inl e \<Rightarrow> Inl e
      | Inr i \<Rightarrow>
          if i \<in> fst ` set (members d)
          then Inr (header (length (filter (\<lambda>r. fst r = i) (members d))) 0,
                    d\<lparr>members := filter (\<lambda>r. fst r \<noteq> i) (members d),
                      member_preferred_event_types :=
                        filter (\<lambda>r. fst r \<noteq> i) (member_preferred_event_types d),
                      member_events := filter (\<lambda>r. fst r \<noteq> i) (member_events d)\<rparr>)
          else Inr (header 0 0, d))"
| "run d (deleteMemberEvents p) =
     (case bind_id p of Inl e \<Rightarrow> Inl e
      | Inr i \<Rightarrow>
          Inr (header (length (filter (\<lambda>r. fst r = i) (member_events d))) 0,
               d\<lparr>member_events := filter (\<lambda>r. fst r \<noteq> i) (member_events d)\<rparr>))"
| "run d (deletePreferredEventTypes p) =
     (case bind_id p of Inl e \<Rightarrow> Inl e
      | Inr i \<Rightarrow>
          Inr (header (length (filter (\<lambda>r. fst r = i) (member_preferred_event_types d))) 0,
               d\<lparr>member_preferred_event_types :=
                   filter (\<lambda>r. fst r \<noteq> i) (member_preferred_event_types d)\<rparr>))"
| "run d (insertPreferredEventTypes values) = Inl ParseError"
| "run d (registerMemberEvent p q) =
     (case bind_id p of Inl e \<Rightarrow> Inl e
      | Inr m \<Rightarrow> (case bind_id q of Inl e \<Rightarrow> Inl e
      | Inr ev \<Rightarrow>
          if (m, ev) \<in> set (member_events d) then Inl DupEntry
          else if m \<notin> fst ` set (members d) \<or> ev \<notin> fst ` set (events d) then Inl NoReferencedRow
          else Inr (header 1 0, d\<lparr>member_events := member_events d @ [(m, ev)]\<rparr>)))"
| "run d (deleteMemberEvent p q) =
     (case bind_id p of Inl e \<Rightarrow> Inl e
      | Inr m \<Rightarrow> (case bind_id q of Inl e \<Rightarrow> Inl e
      | Inr ev \<Rightarrow>
          Inr (header (length (filter (\<lambda>r. r = (m, ev)) (member_events d))) 0,
               d\<lparr>member_events := filter (\<lambda>r. r \<noteq> (m, ev)) (member_events d)\<rparr>)))"
| "run d (checkMemberExists p) =
     (case bind_id p of Inl e \<Rightarrow> Inl e
      | Inr i \<Rightarrow> Inr (Arr (map name_row (filter (\<lambda>r. fst r = i) (members d))), d))"
| "run d (checkEventExists p) =
     (case bind_id p of Inl e \<Rightarrow> Inl e
      | Inr i \<Rightarrow> Inr (Arr (map event_row (filter (\<lambda>r. fst r = i) (events d))), d))"
| "run d (checkMemberPreference p q) =
     (case bind_id p of Inl e \<Rightarrow> Inl e
      | Inr m \<Rightarrow> (case bind_id q of Inl e \<Rightarrow> Inl e
      | Inr t \<Rightarrow>
          Inr (count_rows (length (filter (\<lambda>r. r = (m, t)) (member_preferred_event_types d))), d)))"

definition mysql_execute :: "driver \<Rightarrow> store \<Rightarrow> stmt \<Rightarrow> driver_error + jsval \<times> store" where
  "mysql_execute drv d command = (if reachable drv then run d command else Inl ConnectionRefused)"


section \<open>The query gateway (\<open>config/db.js\<close>)\<close>

text \<open>
  \<open>execute\<close> opens a connection, runs the statement and returns the driver's result; its
  \<open>catch\<close> returns \<open>undefined\<close> for every error the driver throws.
\<close>

definition execute :: "driver \<Rightarrow> store \<Rightarrow> stmt \<Rightarrow> jsval \<times> store" where
  "execute drv d command =
     (case mysql_execute drv d command of
        Inl error \<Rightarrow> (Undefined, d)
      | Inr (result, d') \<Rightarrow> (result, d'))"

text \<open>
  \<open>number(value)\<close>: the argument here is \<open>Number(value)\<close>, the route parameter already
  coerced to a number; a parameter that is not numeric arrives as \<open>NaN\<close>.
\<close>

definition number :: "jsval \<Rightarrow> jsval" where
  "number result = (if isNaN result then Undefined else result)"

text \<open>
  A handler runs against the store and the HTTP response. The response is the list of what
  was sent on it, each entry the status code and the body. A handler either returns or
  throws; what it did to the store and the response before throwing stays done.
\<close>

record world =
  db :: store
  sent :: "(jsval \<times> jsval) list"

type_synonym 'a js = "world \<Rightarrow> (js_error + 'a) \<times> world"

definition ret :: "'a \<Rightarrow> 'a js" where
  "ret x = (\<lambda>w. (Inr x, w))"

definition lift :: "js_error + 'a \<Rightarrow> 'a js" where
  "lift r = (\<lambda>w. (r, w))"

definition bnd :: "'a js \<Rightarrow> ('a \<Rightarrow> 'b js) \<Rightarrow> 'b js" where
  "bnd m f = (\<lambda>w. case m w of (Inl e, w') \<Rightarrow> (Inl e, w') | (Inr x, w') \<Rightarrow> f x w')"

definition try_catch :: "'a js \<Rightarrow> (js_error \<Rightarrow> 'a js) \<Rightarrow> 'a js" where
  "try_catch m h = (\<lambda>w. case m w of (Inl e, w') \<Rightarrow> h e w' | (Inr x, w') \<Rightarrow> (Inr x, w'))"

fun js_not :: "jsval \<Rightarrow> bool" where
  "js_not v = (if truthy v then False else True)"

fun path :: "jsval \<Rightarrow> string list \<Rightarrow> js_error + jsval" where
  "path v [] = Inr v"
| "path v (k # ks) = (case member v k of Inl e \<Rightarrow> Inl e | Inr x \<Rightarrow> path x ks)"

text \<open>\<open>response.status(status).json(body)\<close>, \<open>.end(body)\<close> and \<open>.send()\<close>.\<close>

definition send :: "jsval \<Rightarrow> jsval \<Rightarrow> jsval js" where
  "send status body = (\<lambda>w. (Inr Undefined, w\<lparr>sent := sent w @ [(status, body)]\<rparr>))"

definition sendError :: "jsval \<Rightarrow> jsval \<Rightarrow> jsval js" where
  "sendError error status = send status (Str (case error of Str e \<Rightarrow> e | _ \<Rightarrow> []))"

definition outcome :: "jsval \<Rightarrow> jsval \<Rightarrow> jsval" where
  "outcome status data = Obj [(''status'', status), (''data'', data)]"

fun Array_isArray :: "jsval \<Rightarrow> jsval" where
  "Array_isArray (Arr xs) = Bool True"
| "Array_isArray v = Bool False"

text \<open>
  \<open>sendResponse\<close> normalises what \<open>execute\<close> returned into \<open>{status, data}\<close>. Its own
  \<open>catch\<close>, the only place that answers 500, sees what \<open>transform\<close> throws: \<open>execute\<close>
  has already caught the driver's errors.
\<close>

definition sendResponse :: "driver \<Rightarrow> stmt \<Rightarrow> (jsval \<Rightarrow> jsval js) \<Rightarrow> jsval \<Rightarrow> jsval js" where
  "sendResponse drv query transform status = (\<lambda>w.
     (case execute drv (db w) query of (result, d') \<Rightarrow>
        if truthy result \<and> member result ''affectedRows'' \<noteq> Inr Undefined
        then if member result ''affectedRows'' = Inr (Num 0)
             then (Inr (outcome (Num 404) (Obj [(''message'', Str ''No data found or affected'')])),
                   w\<lparr>db := d'\<rparr>)
             else (Inr (outcome status
                      (Obj [(''message'',
                             Str ((case member result ''affectedRows'' of
                                     Inr n \<Rightarrow> to_string n | Inl e \<Rightarrow> [])
                                  @ '' row(s) affected''))])),
                   w\<lparr>db := d'\<rparr>)
        else if js_not result \<or> js_not (Array_isArray result)
                \<or> member result ''length'' = Inr (Num 0)
        then (Inr (outcome (Num 404) (Obj [(''message'', Str ''No data found'')])), w\<lparr>db := d'\<rparr>)
        else (case transform result (w\<lparr>db := d'\<rparr>) of
                (Inr data, w') \<Rightarrow> (Inr (outcome status data), w')
              | (Inl error, w') \<Rightarrow>
                  (Inr (outcome (Num 500) (Obj [(''error'', Str ''Database query failed'')])), w'))))"

section \<open>Event type routes (\<open>routes/EventTypesRoutes.js\<close>)\<close>

text \<open>
  A request body carries \<open>name\<close> and \<open>preferredEventTypes\<close>; an absent field is
  \<open>None\<close>. A name that is present is a string, and a preference list is a list of ids.
\<close>

record body =
  name :: "string option"
  preferredEventTypes :: "int list option"

definition name_val :: "body \<Rightarrow> jsval" where
  "name_val b = (case name b of None \<Rightarrow> Undefined | Some n \<Rightarrow> Str n)"

definition prefs_val :: "body \<Rightarrow> jsval" where
  "prefs_val b = (case preferredEventTypes b of None \<Rightarrow> Undefined | Some ts \<Rightarrow> Arr (map Num ts))"

definition name_text :: "body \<Rightarrow> string" where
  "name_text b = (case name b of None \<Rightarrow> [] | Some n \<Rightarrow> n)"

definition prefs_list :: "body \<Rightarrow> int list" where
  "prefs_list b = (case preferredEventTypes b of None \<Rightarrow> [] | Some ts \<Rightarrow> ts)"

text \<open>Forwarding a gateway outcome: \<open>status === expected\<close> answers the data, anything else the message.\<close>

definition forward :: "jsval \<Rightarrow> jsval \<Rightarrow> jsval js" where
  "forward expected result =
     bnd (lift (member result ''status'')) (\<lambda>status.
       if status = expected
       then bnd (lift (member result ''data'')) (\<lambda>data. send status data)
       else bnd (lift (path result [''data'', ''message''])) (\<lambda>message. sendError message status))"

definition createEventType :: "driver \<Rightarrow> body \<Rightarrow> jsval js" where
  "createEventType drv b =
     (if js_not (name_val b) then sendError (Str ''Name is required'') (Num 400)
      else bnd (sendResponse drv (insertEventType (name_text b))
                  (\<lambda>result. bnd (lift (member result ''insertId''))
                     (\<lambda>i. ret (Obj [(''id'', i), (''name'', name_val b)])))
                  (Num 201))
             (forward (Num 201)))"


definition deleteEventTypeById :: "driver \<Rightarrow> jsval \<Rightarrow> jsval js" where
  "deleteEventTypeById drv id_param =
     (if js_not (number id_param)
      then sendError (Str ''You must indicate the event type ID'') (Num 400)
      else
        bnd (sendResponse drv (checkEventsWithType (number id_param)) ret (Num 200)) (\<lambda>result.
        bnd (lift (member result ''data'')) (\<lambda>data.
        bnd (lift (index0 data)) (\<lambda>events.
        bnd (lift (member events ''count'')) (\<lambda>count.
        if gt0 count
        then sendError (Str ''Cannot delete event type that is being used by events'') (Num 400)
        else
          bnd (sendResponse drv (checkMembersWithType (number id_param)) ret (Num 200))
            (\<lambda>resultMembers.
          bnd (lift (member resultMembers ''data'')) (\<lambda>dataMembers.
          bnd (lift (index0 dataMembers)) (\<lambda>members.
          bnd (lift (member members ''count'')) (\<lambda>countMembers.
          if gt0 countMembers
          then sendError (Str ''Cannot delete event type that is preferred by members'') (Num 400)
          else
            bnd (sendResponse drv (deleteEventType (number id_param))
                   (\<lambda>result. bnd (lift (member result ''affectedRows''))
                      (\<lambda>n. if truthy n then ret (Obj [(''count'', n)])
                           else sendError (Str ''Event type not found'') (Num 404)))
                   (Num 200))
              (forward (Num 200)))))))))))"


section \<open>Member routes (\<open>routes/MemberRoutes.js\<close>)\<close>

text \<open>\<open>v && v.length > 0\<close>.\<close>

definition has_items :: "jsval \<Rightarrow> bool" where
  "has_items v = (truthy v \<and> (case member v ''length'' of Inr n \<Rightarrow> gt0 n | Inl e \<Rightarrow> False))"

definition createMember :: "driver \<Rightarrow> body \<Rightarrow> jsval js" where
  "createMember drv b =
     (if js_not (name_val b) then sendError (Str ''Name is required'') (Num 400)
      else try_catch
        (bnd (sendResponse drv (insertMember (name_text b)) ret (Num 200)) (\<lambda>result.
         bnd (lift (member result ''status'')) (\<lambda>status.
         if status \<noteq> Num 200
         then bnd (lift (path result [''data'', ''message''])) (\<lambda>message.
                sendError (js_or message (Str ''Failed to create member'')) status)
         else
           bnd (lift (path result [''data'', ''insertId''])) (\<lambda>memberId.
           bnd (if has_items (prefs_val b)
                then bnd (sendResponse drv
                            (insertPreferredEventTypes (map (\<lambda>typeId. (memberId, typeId)) (prefs_list b)))
                            ret (Num 200))
                       (\<lambda>insertEventTypesResult.
                     bnd (lift (member insertEventTypesResult ''status'')) (\<lambda>status2.
                     if status2 \<noteq> Num 200
                     then bnd (lift (path insertEventTypesResult [''data'', ''message''])) (\<lambda>message.
                            bnd (sendError
                                   (js_or message (Str ''Failed to insert preferred event types''))
                                   status2)
                              (\<lambda>u. ret False))
                     else ret True))
                else ret True)
             (\<lambda>proceed.
               if proceed
               then send (Num 200)
                      (Obj [(''message'', Str ''Member created successfully''),
                            (''member'',
                             Obj [(''id'', memberId), (''name'', name_val b),
                                  (''preferredEventTypes'', js_or (prefs_val b) (Arr []))])])
               else ret Undefined)))))
        (\<lambda>error. sendError (Str ''Error creating member'') (Num 500)))"

definition updateMemberInfo :: "driver \<Rightarrow> jsval \<Rightarrow> body \<Rightarrow> jsval js" where
  "updateMemberInfo drv id_param b =
     (if js_not (name_val b) then sendError (Str ''Name is required'') (Num 400)
      else
        bnd (sendResponse drv (updateMember (name_text b) (number id_param)) ret (Num 200)) (\<lambda>result.
        if js_not result then sendError (Str ''Unexpected error occurred'') (Num 500)
        else
          bnd (lift (member result ''status'')) (\<lambda>status.
          if js_not status then sendError (Str ''Unexpected error occurred'') (Num 500)
          else if status = Num 404 then sendError (Str ''Member not found'') (Num 404)
          else
            bnd (sendResponse drv (deletePreferredEventTypes (number id_param))
                   (\<lambda>r. ret (Obj [])) (Num 200)) (\<lambda>u.
            bnd (if has_items (prefs_val b)
                 then sendResponse drv
                        (insertPreferredEventTypes
                           (map (\<lambda>typeId. (number id_param, typeId)) (prefs_list b)))
                        (\<lambda>r. ret (Obj [])) (Num 200)
                 else ret Undefined) (\<lambda>u.
            send status
              (Obj [(''id'', number id_param), (''name'', name_val b),
                    (''preferredEventTypes'', js_or (prefs_val b) (Arr []))]))))))"

text \<open>\<open>deleteMemberById\<close> takes \<open>Number(request.params.id)\<close> as it is.\<close>

definition deleteMemberById :: "driver \<Rightarrow> jsval \<Rightarrow> jsval js" where
  "deleteMemberById drv memberId =
     (if isNaN memberId then sendError (Str ''Invalid member ID'') (Num 400)
      else try_catch
        (bnd (sendResponse drv (getMemberById memberId) ret (Num 200)) (\<lambda>existingMember.
         if js_not existingMember \<or> member existingMember ''length'' = Inr (Num 0)
         then sendError (Str ''Member not found'') (Num 404)
         else
           bnd (sendResponse drv (deleteMemberEvents memberId) (\<lambda>r. ret (Obj [])) (Num 200)) (\<lambda>u.
           bnd (sendResponse drv (deletePreferredEventTypes memberId) (\<lambda>r. ret (Obj [])) (Num 200))
             (\<lambda>u.
           bnd (sendResponse drv (deleteMember memberId) ret (Num 200)) (\<lambda>result.
           if js_not result then sendError (Str ''Member not found'') (Num 404)
           else
             bnd (lift (member result ''affectedRows'')) (\<lambda>affectedRows.
             if js_not affectedRows then sendError (Str ''Member not found'') (Num 404)
             else send (Num 204) Undefined))))))
        (\<lambda>error. sendError (Str ''Error deleting member'') (Num 500)))"

section \<open>Registration routes\<close>

definition registerMemberToEvent :: "driver \<Rightarrow> jsval \<Rightarrow> jsval \<Rightarrow> jsval js" where
  "registerMemberToEvent drv member_param event_param =
     (if js_not (number member_param) \<or> js_not (number event_param)
      then sendError (Str ''Invalid member or event ID'') (Num 400)
      else
        bnd (sendResponse drv (checkMemberExists (number member_param)) ret (Num 200)) (\<lambda>r1.
        bnd (lift (destructure1 r1)) (\<lambda>members.
        bnd (lift (member members ''length'')) (\<lambda>n.
        if js_not n then sendError (Str ''Member not found'') (Num 404)
        else
          bnd (sendResponse drv (checkEventExists (number event_param)) ret (Num 200)) (\<lambda>r2.
          bnd (lift (destructure1 r2)) (\<lambda>events.
          bnd (lift (member events ''length'')) (\<lambda>n2.
          if js_not n2 then sendError (Str ''Event not found'') (Num 404)
          else
            bnd (lift (index0 events)) (\<lambda>event0.
            bnd (lift (member event0 ''type_id'')) (\<lambda>type_id.
            bnd (sendResponse drv (checkMemberPreference (number member_param) type_id) ret (Num 200))
              (\<lambda>r3.
            bnd (lift (destructure1 r3)) (\<lambda>preferences.
            bnd (lift (member preferences ''count'')) (\<lambda>count.
            if count = Num 0
            then sendError (Str ''Member does not prefer this event type'') (Num 400)
            else
              bnd (sendResponse drv
                     (registerMemberEvent (number member_param) (number event_param))
                     (\<lambda>r. ret (Obj [(''success'', Bool True)])) (Num 201))
                (\<lambda>u. ret Undefined)))))))))))))"

definition unregisterMemberFromEvent :: "driver \<Rightarrow> jsval \<Rightarrow> jsval \<Rightarrow> jsval js" where
  "unregisterMemberFromEvent drv member_param event_param =
     (if js_not (number member_param) \<or> js_not (number event_param)
      then sendError (Str ''Invalid member or event ID'') (Num 400)
      else
        bnd (sendResponse drv (deleteMemberEvent (number member_param) (number event_param))
               (\<lambda>result. bnd (lift (member result ''affectedRows''))
                  (\<lambda>n. if truthy n then ret (Obj [(''success'', Bool True)])
                       else sendError (Str ''Registration not found'') (Num 404)))
               (Num 200))
          (\<lambda>u. ret Undefined))"

section \<open>The route table (\<open>server.js\<close>)\<close>

text \<open>
  The routes \<open>server.js\<close> registers, in order: the HTTP verb, the path pattern cut at its
  slashes, and the name of the handler. A pattern segment that starts with a colon binds
  one non-empty segment of the request's path; any other segment is compared without
  regard to case, and the path may end in one more slash (an empty last segment), as in
  the router's default, non-strict matching.
\<close>

datatype verb = GET | POST | PUT | DELETE

definition app :: "(verb \<times> string list \<times> string) list" where
  "app =
     [(GET, [''events''], ''getAllEvents''),
      (GET, [''events'', '':id''], ''getEventById''),
      (POST, [''events''], ''createEvent''),
      (PUT, [''events'', '':id''], ''updateEventById''),
      (DELETE, [''events'', '':id''], ''deleteEventById''),
      (GET, [''event-types''], ''getAllEventTypes''),
      (GET, [''event-types'', '':id''], ''getEventTypeById''),
      (POST, [''event-types''], ''createEventType''),
      (PUT, [''event-types'', '':id''], ''updateEventTypeById''),
      (DELETE, [''event-types'', '':id''], ''deleteEventTypeById''),
      (GET, [''members''], ''getMembers''),
      (GET, [''members'', '':id''], ''getMember''),
      (POST, [''members''], ''createMember''),
      (PUT, [''members'', '':id''], ''updateMemberInfo''),
      (DELETE, [''members'', '':id''], ''deleteMemberById'')]"

definition lower :: "char \<Rightarrow> char" where
  "lower c =
     (if (65::nat) \<le> of_char c \<and> of_char c \<le> (90::nat) then char_of (of_char c + (32::nat))
      else c)"

fun matches :: "string list \<Rightarrow> string list \<Rightarrow> bool" where
  "matches [] ss = (ss = [] \<or> ss = [[]])"
| "matches (p # ps) [] = False"
| "matches (p # ps) (s # ss) =
     ((if p \<noteq> [] \<and> hd p = CHR '':'' then s \<noteq> [] else map lower p = map lower s)
      \<and> matches ps ss)"

fun dispatch_in :: "(verb \<times> string list \<times> string) list \<Rightarrow> verb \<Rightarrow> string list \<Rightarrow> string option" where
  "dispatch_in [] m segments = None"
| "dispatch_in ((m', pattern, handler) # routes) m segments =
     (if m' = m \<and> matches pattern segments then Some handler
      else dispatch_in routes m segments)"

definition dispatch :: "verb \<Rightarrow> string list \<Rightarrow> string option" where
  "dispatch m segments = dispatch_in app m segments"

section \<open>The in-browser stores (\<open>MemberStoreClass\<close>, \<open>EventStoreClass\<close>)\<close>

text \<open>
  The stores of the first phase keep their entities in an array and mirror it, with
  \<open>lastId\<close>, into \<open>localStorage\<close>; the field \<open>storage\<close> is the item as last written.
\<close>

record Member =
  m_id :: int
  m_name :: string
  m_preferredEventTypes :: "int list"

record MemberStoreClass =
  ms_members :: "Member list"
  ms_lastId :: int
  ms_storage :: "(int \<times> Member list) option"

record Event =
  e_id :: int
  e_typeId :: int
  e_name :: string
  e_date :: string
  e_participants :: "int list"

record EventStoreClass =
  es_events :: "Event list"
  es_lastId :: int
  es_storage :: "(int \<times> Event list) option"

text \<open>\<open>findIndex\<close> (\<open>None\<close> for -1), \<open>splice(index, 1)\<close>, and \<open>forEach\<close> with the index.\<close>

fun findIndex :: "('a \<Rightarrow> bool) \<Rightarrow> 'a list \<Rightarrow> nat option" where
  "findIndex p [] = None"
| "findIndex p (x # xs) = (if p x then Some 0 else map_option Suc (findIndex p xs))"

definition splice1 :: "nat \<Rightarrow> 'a list \<Rightarrow> 'a list" where
  "splice1 index xs = take index xs @ drop (Suc index) xs"

fun forEach_idx :: "('a \<Rightarrow> nat \<Rightarrow> 'a) \<Rightarrow> nat \<Rightarrow> 'a list \<Rightarrow> 'a list" where
  "forEach_idx f idx [] = []"
| "forEach_idx f idx (x # xs) = f x idx # forEach_idx f (Suc idx) xs"

definition MemberStore_saveToStorage :: "MemberStoreClass \<Rightarrow> MemberStoreClass" where
  "MemberStore_saveToStorage st = st\<lparr>ms_storage := Some (ms_lastId st, ms_members st)\<rparr>"

definition MemberStore_delete :: "MemberStoreClass \<Rightarrow> int \<Rightarrow> js_error + MemberStoreClass" where
  "MemberStore_delete st i =
     (case findIndex (\<lambda>m. m_id m = i) (ms_members st) of
        None \<Rightarrow> Inl (Error (''Membro n'' @ [CHR 0xE3] @ ''o encontrado''))
      | Some index \<Rightarrow>
          (let members = forEach_idx (\<lambda>member idx. member\<lparr>m_id := int idx + 1\<rparr>) 0
                           (splice1 index (ms_members st))
           in Inr (MemberStore_saveToStorage
                     (st\<lparr>ms_members := members, ms_lastId := int (length members)\<rparr>))))"

definition EventStore_saveToStorage :: "EventStoreClass \<Rightarrow> EventStoreClass" where
  "EventStore_saveToStorage st = st\<lparr>es_storage := Some (es_lastId st, es_events st)\<rparr>"

definition EventStore_delete :: "EventStoreClass \<Rightarrow> int \<Rightarrow> js_error + EventStoreClass" where
  "EventStore_delete st i =
     (case findIndex (\<lambda>e. e_id e = i) (es_events st) of
        None \<Rightarrow> Inl (Error (''Evento n'' @ [CHR 0xE3] @ ''o encontrado''))
      | Some index \<Rightarrow>
          (let events = forEach_idx (\<lambda>event idx. event\<lparr>e_id := int idx + 1\<rparr>) 0
                          (splice1 index (es_events st))
           in Inr (EventStore_saveToStorage
                     (st\<lparr>es_events := events, es_lastId := int (length events)\<rparr>))))"


section \<open>A club to run the routes on\<close>

text \<open>
  One event type, one event of that type and one member; \<open>club_registered\<close> adds the
  member's preference for the type and her registration for the event.
\<close>

definition mysql_up :: driver where
  "mysql_up = \<lparr>reachable = True\<rparr>"

definition mysql_down :: driver where
  "mysql_down = \<lparr>reachable = False\<rparr>"

definition club :: store where
  "club = \<lparr>event_types = [(1, ''Passeio'')], events = [(1, 1, ''Ride'', ''2025-06-01'')],
           members = [(1, ''Ana'')], member_preferred_event_types = [], member_events = [],
           event_types_auto_increment = 2, members_auto_increment = 2\<rparr>"

definition club_registered :: store where
  "club_registered = club\<lparr>member_preferred_event_types := [(1, 1)], member_events := [(1, 1)]\<rparr>"

definition club_preferring :: store where
  "club_preferring = club\<lparr>member_preferred_event_types := [(1, 1)]\<rparr>"

definition club_without_events :: store where
  "club_without_events = club\<lparr>events := []\<rparr>"

definition three_members :: MemberStoreClass where
  "three_members =
     \<lparr>ms_members = [\<lparr>m_id = 1, m_name = ''Ana'', m_preferredEventTypes = []\<rparr>,
                    \<lparr>m_id = 2, m_name = ''Rui'', m_preferredEventTypes = [1]\<rparr>,
                    \<lparr>m_id = 3, m_name = ''Eva'', m_preferredEventTypes = [2]\<rparr>],
      ms_lastId = 3, ms_storage = None\<rparr>"

definition two_events :: EventStoreClass where
  "two_events =
     \<lparr>es_events = [\<lparr>e_id = 1, e_typeId = 1, e_name = ''Passeio na Cidade'',
                     e_date = ''2025-06-01'', e_participants = []\<rparr>,
                   \<lparr>e_id = 2, e_typeId = 2, e_name = ''Treino'',
                     e_date = ''2025-06-15'', e_participants = [1]\<rparr>],
      es_lastId = 2, es_storage = None\<rparr>"

section \<open>The gateway's status codes\<close>

lemma sendResponse_driver_error:
  "mysql_execute drv (db w) q = Inl e \<Longrightarrow>
   sendResponse drv q tr st w
     = (Inr (outcome (Num 404) (Obj [(''message'', Str ''No data found'')])), w)"
  by (simp add: sendResponse_def execute_def)

text \<open>
  What the gateway does answer 404 for, and the one way to its 500: a read that returns
  no row, a write that affects no row, and a \<open>transform\<close> that throws.
\<close>

lemma sendResponse_no_rows:
  "execute drv (db w) q = (Arr [], d') \<Longrightarrow>
   sendResponse drv q tr st w
     = (Inr (outcome (Num 404) (Obj [(''message'', Str ''No data found'')])), w\<lparr>db := d'\<rparr>)"
  by (simp add: sendResponse_def)

lemma sendResponse_none_affected:
  "execute drv (db w) q = (header 0 i, d') \<Longrightarrow>
   sendResponse drv q tr st w
     = (Inr (outcome (Num 404) (Obj [(''message'', Str ''No data found or affected'')])),
        w\<lparr>db := d'\<rparr>)"
  by (simp add: sendResponse_def header_def)

lemma sendResponse_transform_throws:
  "execute drv (db w) q = (Arr (x # xs), d') \<Longrightarrow> tr (Arr (x # xs)) (w\<lparr>db := d'\<rparr>) = (Inl e, w') \<Longrightarrow>
   sendResponse drv q tr st w
     = (Inr (outcome (Num 500) (Obj [(''error'', Str ''Database query failed'')])), w')"
  by (simp add: sendResponse_def)

text \<open>
  C3. The claim is that the gateway answers 404 for a read with no rows and for a write
  that affects no row, and 500 for every error the driver throws. The last part does not
  hold of the code: \<open>execute\<close> catches the driver's error and returns \<open>undefined\<close>, which
  \<open>sendResponse\<close> takes for an empty result. Inserting an event type whose name is taken
  (a duplicate key), and any statement while the database cannot be reached, are both
  answered 404.
\<close>

theorem driver_error_answers_404:
  "mysql_execute mysql_up club (insertEventType ''Passeio'') = Inl DupEntry \<and>
   sendResponse mysql_up (insertEventType ''Passeio'') ret (Num 201) \<lparr>db = club, sent = []\<rparr>
     = (Inr (Obj [(''status'', Num 404), (''data'', Obj [(''message'', Str ''No data found'')])]),
        \<lparr>db = club, sent = []\<rparr>) \<and>
   mysql_execute mysql_down club (checkEventsWithType (Num 1)) = Inl ConnectionRefused \<and>
   sendResponse mysql_down (checkEventsWithType (Num 1)) ret (Num 200) \<lparr>db = club, sent = []\<rparr>
     = (Inr (Obj [(''status'', Num 404), (''data'', Obj [(''message'', Str ''No data found'')])]),
        \<lparr>db = club, sent = []\<rparr>)"
  by (simp add: sendResponse_def execute_def mysql_execute_def mysql_up_def mysql_down_def
      club_def outcome_def)

section \<open>The route table\<close>

text \<open>
  C6. The claim is that POST and DELETE on \<open>/members/:memberId/events/:eventId\<close> reach
  the register and unregister handlers. \<open>server.js\<close> registers no route of that shape:
  for every member id and event id the table has no entry for either request.
\<close>

theorem registration_routes_not_registered:
  "dispatch POST [''members'', memberId, ''events'', eventId] = None \<and>
   dispatch DELETE [''members'', memberId, ''events'', eventId] = None"
  by (simp add: dispatch_def app_def)

section \<open>The in-browser stores\<close>

lemma length_forEach_idx: "length (forEach_idx f k xs) = length xs"
  by (induction xs arbitrary: k) auto

lemma findIndex_less: "findIndex p xs = Some i \<Longrightarrow> i < length xs"
  by (induction xs arbitrary: i) (auto split: if_splits)

lemma findIndex_Some_iff: "(\<exists>i. findIndex p xs = Some i) \<longleftrightarrow> (\<exists>x \<in> set xs. p x)"
  by (induction xs) auto

lemma length_splice1: "i < length xs \<Longrightarrow> Suc (length (splice1 i xs)) = length xs"
  by (simp add: splice1_def)

lemma member_ids_forEach:
  "map m_id (forEach_idx (\<lambda>member idx. member\<lparr>m_id := int idx + 1\<rparr>) k xs)
     = map int [Suc k ..< Suc k + length xs]"
proof (induction xs arbitrary: k)
  case Nil
  then show ?case by simp
next
  case (Cons x xs)
  have "[Suc k ..< Suc k + length (x # xs)] = Suc k # [Suc (Suc k) ..< Suc (Suc k) + length xs]"
    by (subst upt_rec) simp
  then show ?case using Cons.IH [of "Suc k"] by simp
qed

lemma event_ids_forEach:
  "map e_id (forEach_idx (\<lambda>event idx. event\<lparr>e_id := int idx + 1\<rparr>) k xs)
     = map int [Suc k ..< Suc k + length xs]"
proof (induction xs arbitrary: k)
  case Nil
  then show ?case by simp
next
  case (Cons x xs)
  have "[Suc k ..< Suc k + length (x # xs)] = Suc k # [Suc (Suc k) ..< Suc (Suc k) + length xs]"
    by (subst upt_rec) simp
  then show ?case using Cons.IH [of "Suc k"] by simp
qed

text \<open>A delete succeeds exactly when an entity carries the id.\<close>

lemma MemberStore_delete_succeeds_iff:
  "(\<exists>ms'. MemberStore_delete ms i = Inr ms') \<longleftrightarrow> (\<exists>m \<in> set (ms_members ms). m_id m = i)"
  using findIndex_Some_iff [of "\<lambda>m. m_id m = i" "ms_members ms"]
  by (auto simp: MemberStore_delete_def Let_def split: option.splits)

lemma EventStore_delete_succeeds_iff:
  "(\<exists>es'. EventStore_delete es j = Inr es') \<longleftrightarrow> (\<exists>e \<in> set (es_events es). e_id e = j)"
  using findIndex_Some_iff [of "\<lambda>e. e_id e = j" "es_events es"]
  by (auto simp: EventStore_delete_def Let_def split: option.splits)

text \<open>
  C9. After every successful delete in the member store and in the event store, the ids of
  the remaining entities are 1, 2, ..., n in list order, where n is the number of entities
  left (one fewer than before); \<open>lastId\<close> is n, and the copy written to \<open>localStorage\<close>
  holds that \<open>lastId\<close> and those entities.
\<close>

theorem delete_resequences_ids:
  "(MemberStore_delete ms i = Inr ms' \<longrightarrow>
      map m_id (ms_members ms') = map int [1 ..< Suc (length (ms_members ms'))] \<and>
      ms_lastId ms' = int (length (ms_members ms')) \<and>
      ms_storage ms' = Some (int (length (ms_members ms')), ms_members ms') \<and>
      Suc (length (ms_members ms')) = length (ms_members ms)) \<and>
   (EventStore_delete es j = Inr es' \<longrightarrow>
      map e_id (es_events es') = map int [1 ..< Suc (length (es_events es'))] \<and>
      es_lastId es' = int (length (es_events es')) \<and>
      es_storage es' = Some (int (length (es_events es')), es_events es') \<and>
      Suc (length (es_events es')) = length (es_events es))"
proof (intro conjI impI)
  assume a: "MemberStore_delete ms i = Inr ms'"
  then obtain index where f: "findIndex (\<lambda>m. m_id m = i) (ms_members ms) = Some index"
    by (auto simp: MemberStore_delete_def split: option.splits)
  let ?members = "forEach_idx (\<lambda>member idx. member\<lparr>m_id := int idx + 1\<rparr>) 0
                    (splice1 index (ms_members ms))"
  from a f have ms': "ms' = MemberStore_saveToStorage
      (ms\<lparr>ms_members := ?members, ms_lastId := int (length ?members)\<rparr>)"
    by (simp add: MemberStore_delete_def Let_def)
  have len: "length ?members = length (splice1 index (ms_members ms))"
    by (rule length_forEach_idx)
  show "map m_id (ms_members ms') = map int [1 ..< Suc (length (ms_members ms'))]"
    using member_ids_forEach [of 0 "splice1 index (ms_members ms)"]
    by (simp add: ms' MemberStore_saveToStorage_def len)
  show "ms_lastId ms' = int (length (ms_members ms'))"
    by (simp add: ms' MemberStore_saveToStorage_def)
  show "ms_storage ms' = Some (int (length (ms_members ms')), ms_members ms')"
    by (simp add: ms' MemberStore_saveToStorage_def)
  show "Suc (length (ms_members ms')) = length (ms_members ms)"
    using length_splice1 [OF findIndex_less [OF f]]
    by (simp add: ms' MemberStore_saveToStorage_def len)
next
  assume a: "EventStore_delete es j = Inr es'"
  then obtain index where f: "findIndex (\<lambda>e. e_id e = j) (es_events es) = Some index"
    by (auto simp: EventStore_delete_def split: option.splits)
  let ?events = "forEach_idx (\<lambda>event idx. event\<lparr>e_id := int idx + 1\<rparr>) 0
                   (splice1 index (es_events es))"
  from a f have es': "es' = EventStore_saveToStorage
      (es\<lparr>es_events := ?events, es_lastId := int (length ?events)\<rparr>)"
    by (simp add: EventStore_delete_def Let_def)
  have len: "length ?events = length (splice1 index (es_events es))"
    by (rule length_forEach_idx)
  show "map e_id (es_events es') = map int [1 ..< Suc (length (es_events es'))]"
    using event_ids_forEach [of 0 "splice1 index (es_events es)"]
    by (simp add: es' EventStore_saveToStorage_def len)
  show "es_lastId es' = int (length (es_events es'))"
    by (simp add: es' EventStore_saveToStorage_def)
  show "es_storage es' = Some (int (length (es_events es')), es_events es')"
    by (simp add: es' EventStore_saveToStorage_def)
  show "Suc (length (es_events es')) = length (es_events es)"
    using length_splice1 [OF findIndex_less [OF f]]
    by (simp add: es' EventStore_saveToStorage_def len)
qed

text \<open>
  Deleting the member with id 2 of three, and the event with id 1 of two: the member that
  had id 3 now has id 2, the event that had id 2 now has id 1.
\<close>

theorem delete_resequences_ids_witness:
  "MemberStore_delete three_members 2
     = Inr \<lparr>ms_members = [\<lparr>m_id = 1, m_name = ''Ana'', m_preferredEventTypes = []\<rparr>,
                          \<lparr>m_id = 2, m_name = ''Eva'', m_preferredEventTypes = [2]\<rparr>],
            ms_lastId = 2,
            ms_storage = Some (2, [\<lparr>m_id = 1, m_name = ''Ana'', m_preferredEventTypes = []\<rparr>,
                                   \<lparr>m_id = 2, m_name = ''Eva'', m_preferredEventTypes = [2]\<rparr>])\<rparr> \<and>
   map m_id (ms_members (projr (MemberStore_delete three_members 2))) = [1, 2] \<and>
   ms_lastId (projr (MemberStore_delete three_members 2)) = 2 \<and>
   EventStore_delete two_events 1
     = Inr \<lparr>es_events = [\<lparr>e_id = 1, e_typeId = 2, e_name = ''Treino'',
                           e_date = ''2025-06-15'', e_participants = [1]\<rparr>],
            es_lastId = 1,
            es_storage = Some (1, [\<lparr>e_id = 1, e_typeId = 2, e_name = ''Treino'',
                                    e_date = ''2025-06-15'', e_participants = [1]\<rparr>])\<rparr> \<and>
   map e_id (es_events (projr (EventStore_delete two_events 1))) = [1] \<and>
   es_lastId (projr (EventStore_delete two_events 1)) = 1"
proof -
  have m: "MemberStore_delete three_members 2
     = Inr \<lparr>ms_members = [\<lparr>m_id = 1, m_name = ''Ana'', m_preferredEventTypes = []\<rparr>,
                          \<lparr>m_id = 2, m_name = ''Eva'', m_preferredEventTypes = [2]\<rparr>],
            ms_lastId = 2,
            ms_storage = Some (2, [\<lparr>m_id = 1, m_name = ''Ana'', m_preferredEventTypes = []\<rparr>,
                                   \<lparr>m_id = 2, m_name = ''Eva'', m_preferredEventTypes = [2]\<rparr>])\<rparr>"
    by (simp add: MemberStore_delete_def three_members_def splice1_def
        MemberStore_saveToStorage_def Let_def)
  have e: "EventStore_delete two_events 1
     = Inr \<lparr>es_events = [\<lparr>e_id = 1, e_typeId = 2, e_name = ''Treino'',
                           e_date = ''2025-06-15'', e_participants = [1]\<rparr>],
            es_lastId = 1,
            es_storage = Some (1, [\<lparr>e_id = 1, e_typeId = 2, e_name = ''Treino'',
                                    e_date = ''2025-06-15'', e_participants = [1]\<rparr>])\<rparr>"
    by (simp add: EventStore_delete_def two_events_def splice1_def
        EventStore_saveToStorage_def Let_def)
  show ?thesis
    using delete_resequences_ids [of three_members 2
        "projr (MemberStore_delete three_members 2)" two_events 1
        "projr (EventStore_delete two_events 1)"]
    by (simp add: m e)
qed


section \<open>Validation of names\<close>


lemma filter_present: "i \<in> fst ` set xs \<Longrightarrow> filter (\<lambda>r. fst r = i) xs \<noteq> []"
  by (induction xs) auto


lemma show_int_1: "show_int 1 = ''1''"
  by (simp add: show_int_def digits.simps)

text \<open>
  C8, as stated: a create whose name is absent, empty or only whitespace fails with 400 and
  inserts nothing. The routes test \<open>!name\<close> and never trim: a name of two spaces is
  inserted, and answered 201 for an event type and 200 for a member.
\<close>

theorem create_accepts_blank_name_counterexample:
  "createEventType mysql_up \<lparr>name = Some ''  '', preferredEventTypes = None\<rparr>
       \<lparr>db = club, sent = []\<rparr>
     = (Inr Undefined,
        \<lparr>db = club\<lparr>event_types := [(1, ''Passeio''), (2, ''  '')],
                   event_types_auto_increment := 3\<rparr>,
         sent = [(Num 201, Obj [(''message'', Str ''1 row(s) affected'')])]\<rparr>) \<and>
   createMember mysql_up \<lparr>name = Some ''  '', preferredEventTypes = None\<rparr>
       \<lparr>db = club, sent = []\<rparr>
     = (Inr Undefined,
        \<lparr>db = club\<lparr>members := [(1, ''Ana''), (2, ''  '')], members_auto_increment := 3\<rparr>,
         sent = [(Num 200,
                  Obj [(''message'', Str ''Member created successfully''),
                       (''member'',
                        Obj [(''id'', Undefined), (''name'', Str ''  ''),
                             (''preferredEventTypes'', Arr [])])])]\<rparr>)"
  by (simp add: createEventType_def createMember_def name_val_def name_text_def prefs_val_def
      has_items_def js_or_def try_catch_def
      sendResponse_def execute_def mysql_execute_def mysql_up_def club_def header_def
      outcome_def forward_def bnd_def lift_def ret_def send_def sendError_def show_int_1)

text \<open>
  C8, amended: a create of an event type or of a member whose name is absent or empty is
  answered 400, "Name is required", and leaves the store as it was.
\<close>

theorem create_rejects_missing_name:
  "name b = None \<or> name b = Some [] \<Longrightarrow>
   createEventType drv b w
     = (Inr Undefined, w\<lparr>sent := sent w @ [(Num 400, Str ''Name is required'')]\<rparr>) \<and>
   createMember drv b w
     = (Inr Undefined, w\<lparr>sent := sent w @ [(Num 400, Str ''Name is required'')]\<rparr>)"
  by (auto simp: createEventType_def createMember_def name_val_def sendError_def send_def)

theorem create_rejects_missing_name_witness:
  "createEventType mysql_up \<lparr>name = Some [], preferredEventTypes = None\<rparr> \<lparr>db = club, sent = []\<rparr>
     = (Inr Undefined, \<lparr>db = club, sent = [(Num 400, Str ''Name is required'')]\<rparr>) \<and>
   createMember mysql_up \<lparr>name = None, preferredEventTypes = Some [1]\<rparr> \<lparr>db = club, sent = []\<rparr>
     = (Inr Undefined, \<lparr>db = club, sent = [(Num 400, Str ''Name is required'')]\<rparr>)"
  using create_rejects_missing_name [of "\<lparr>name = Some [], preferredEventTypes = None\<rparr>" mysql_up
          "\<lparr>db = club, sent = []\<rparr>"]
        create_rejects_missing_name [of "\<lparr>name = None, preferredEventTypes = Some [1]\<rparr>" mysql_up
          "\<lparr>db = club, sent = []\<rparr>"]
  by simp






section \<open>Deleting an event type\<close>

lemma sendResponse_checkEventsWithType:
  "reachable drv \<Longrightarrow>
   sendResponse drv (checkEventsWithType (Num t)) ret (Num 200) w
     = (Inr (outcome (Num 200)
          (count_rows (length (filter (\<lambda>r. fst (snd r) = t) (events (db w)))))), w)"
  by (simp add: sendResponse_def execute_def mysql_execute_def count_rows_def ret_def)

lemma sendResponse_checkMembersWithType:
  "reachable drv \<Longrightarrow>
   sendResponse drv (checkMembersWithType (Num t)) ret (Num 200) w
     = (Inr (outcome (Num 200)
          (count_rows (length (filter (\<lambda>r. snd r = t) (member_preferred_event_types (db w)))))), w)"
  by (simp add: sendResponse_def execute_def mysql_execute_def count_rows_def ret_def)

lemma sendResponse_deleteEventType:
  "reachable drv \<Longrightarrow> t \<in> fst ` set (event_types (db w)) \<Longrightarrow>
   filter (\<lambda>r. fst (snd r) = t) (events (db w)) = [] \<Longrightarrow>
   filter (\<lambda>r. snd r = t) (member_preferred_event_types (db w)) = [] \<Longrightarrow>
   sendResponse drv (deleteEventType (Num t)) tr (Num 200) w
     = (Inr (outcome (Num 200)
          (Obj [(''message'',
                 Str (show_int (int (length (filter (\<lambda>r. fst r = t) (event_types (db w)))))
                      @ '' row(s) affected''))])),
        w\<lparr>db := (db w)\<lparr>event_types := filter (\<lambda>r. fst r \<noteq> t) (event_types (db w))\<rparr>\<rparr>)"
proof -
  assume a: "reachable drv" "t \<in> fst ` set (event_types (db w))"
    and e: "filter (\<lambda>r. fst (snd r) = t) (events (db w)) = []"
    and p: "filter (\<lambda>r. snd r = t) (member_preferred_event_types (db w)) = []"
  have e': "filter (\<lambda>r. fst (snd r) \<noteq> t) (events (db w)) = events (db w)"
    using e by (simp add: filter_empty_conv filter_id_conv)
  have p': "filter (\<lambda>r. snd r \<noteq> t) (member_preferred_event_types (db w))
              = member_preferred_event_types (db w)"
    using p by (simp add: filter_empty_conv filter_id_conv)
  have k: "filter (\<lambda>r. fst r = t) (event_types (db w)) \<noteq> []"
    using a(2) by (rule filter_present)
  show ?thesis
    using a k
    by (simp add: sendResponse_def execute_def mysql_execute_def header_def e e' p' outcome_def)
qed

text \<open>
  C4. With the database reachable and \<open>t\<close> a non-zero id: when an event has type \<open>t\<close> or
  a preference row refers to \<open>t\<close>, the delete is answered 400 and the store is as it was;
  when neither count is positive and a row of \<open>event_types\<close> has id \<open>t\<close>, the delete is
  answered 200 and that row is gone, the other tables as they were.
\<close>

theorem deleteEventTypeById_guard:
  assumes "reachable drv" and "t \<noteq> 0"
  shows
    "(0 < length (filter (\<lambda>r. fst (snd r) = t) (events (db w))) \<or>
      0 < length (filter (\<lambda>r. snd r = t) (member_preferred_event_types (db w))) \<longrightarrow>
        deleteEventTypeById drv (Num t) w
          = (Inr Undefined,
             w\<lparr>sent := sent w @
                 [(Num 400,
                   Str (if 0 < length (filter (\<lambda>r. fst (snd r) = t) (events (db w)))
                        then ''Cannot delete event type that is being used by events''
                        else ''Cannot delete event type that is preferred by members''))]\<rparr>)) \<and>
     (length (filter (\<lambda>r. fst (snd r) = t) (events (db w))) = 0 \<and>
      length (filter (\<lambda>r. snd r = t) (member_preferred_event_types (db w))) = 0 \<and>
      t \<in> fst ` set (event_types (db w)) \<longrightarrow>
        deleteEventTypeById drv (Num t) w
          = (Inr Undefined,
             w\<lparr>db := (db w)\<lparr>event_types := filter (\<lambda>r. fst r \<noteq> t) (event_types (db w))\<rparr>,
               sent := sent w @
                 [(Num 200,
                   Obj [(''message'',
                         Str (show_int (int (length (filter (\<lambda>r. fst r = t) (event_types (db w)))))
                              @ '' row(s) affected''))])]\<rparr>))"
proof (intro conjI impI)
  assume "0 < length (filter (\<lambda>r. fst (snd r) = t) (events (db w))) \<or>
      0 < length (filter (\<lambda>r. snd r = t) (member_preferred_event_types (db w)))"
  then show "deleteEventTypeById drv (Num t) w
          = (Inr Undefined,
             w\<lparr>sent := sent w @
                 [(Num 400,
                   Str (if 0 < length (filter (\<lambda>r. fst (snd r) = t) (events (db w)))
                        then ''Cannot delete event type that is being used by events''
                        else ''Cannot delete event type that is preferred by members''))]\<rparr>)"
    using assms
    by (simp add: deleteEventTypeById_def number_def sendResponse_checkEventsWithType
        sendResponse_checkMembersWithType bnd_def lift_def outcome_def count_rows_def
        sendError_def send_def)
next
  assume a: "length (filter (\<lambda>r. fst (snd r) = t) (events (db w))) = 0 \<and>
      length (filter (\<lambda>r. snd r = t) (member_preferred_event_types (db w))) = 0 \<and>
      t \<in> fst ` set (event_types (db w))"
  then have "sendResponse drv (deleteEventType (Num t))
       (\<lambda>result. bnd (lift (member result ''affectedRows''))
                      (\<lambda>n. if truthy n then ret (Obj [(''count'', n)])
                           else sendError (Str ''Event type not found'') (Num 404))) (Num 200) w
     = (Inr (outcome (Num 200)
          (Obj [(''message'',
                 Str (show_int (int (length (filter (\<lambda>r. fst r = t) (event_types (db w)))))
                      @ '' row(s) affected''))])),
        w\<lparr>db := (db w)\<lparr>event_types := filter (\<lambda>r. fst r \<noteq> t) (event_types (db w))\<rparr>\<rparr>)"
    using assms by (intro sendResponse_deleteEventType) simp_all
  then show "deleteEventTypeById drv (Num t) w
          = (Inr Undefined,
             w\<lparr>db := (db w)\<lparr>event_types := filter (\<lambda>r. fst r \<noteq> t) (event_types (db w))\<rparr>,
               sent := sent w @
                 [(Num 200,
                   Obj [(''message'',
                         Str (show_int (int (length (filter (\<lambda>r. fst r = t) (event_types (db w)))))
                              @ '' row(s) affected''))])]\<rparr>)"
    using assms a
    by (simp add: deleteEventTypeById_def number_def sendResponse_checkEventsWithType
        sendResponse_checkMembersWithType bnd_def lift_def outcome_def count_rows_def
        forward_def send_def)
qed

text \<open>
  The club's event type has one event: the delete is refused. Once the event is gone the
  same delete goes through.
\<close>

theorem deleteEventTypeById_guard_witness:
  "deleteEventTypeById mysql_up (Num 1) \<lparr>db = club, sent = []\<rparr>
     = (Inr Undefined,
        \<lparr>db = club,
         sent = [(Num 400, Str ''Cannot delete event type that is being used by events'')]\<rparr>) \<and>
   deleteEventTypeById mysql_up (Num 1) \<lparr>db = club_without_events, sent = []\<rparr>
     = (Inr Undefined,
        \<lparr>db = club_without_events\<lparr>event_types := []\<rparr>,
         sent = [(Num 200, Obj [(''message'', Str ''1 row(s) affected'')])]\<rparr>)"
  using deleteEventTypeById_guard [of mysql_up 1 "\<lparr>db = club, sent = []\<rparr>"]
        deleteEventTypeById_guard [of mysql_up 1 "\<lparr>db = club_without_events, sent = []\<rparr>"]
  by (simp add: club_def club_without_events_def mysql_up_def show_int_1)


section \<open>Deleting a member\<close>

lemma filter_others_absent: "i \<notin> fst ` set xs \<Longrightarrow> filter (\<lambda>r. fst r \<noteq> i) xs = xs"
  by (induction xs) auto

text \<open>
  Whatever the store and the driver, \<open>deleteMemberById\<close> on a number answers 404; with
  the database reachable, the member's rows are gone from all three tables.
\<close>

lemma deleteMemberById_always_404:
  "sent (snd (deleteMemberById drv (Num i) w)) = sent w @ [(Num 404, Str ''Member not found'')]"
  by (simp add: deleteMemberById_def try_catch_def sendResponse_def execute_def
      mysql_execute_def header_def outcome_def bnd_def lift_def ret_def send_def sendError_def)

lemma deleteMemberById_rows:
  "reachable drv \<Longrightarrow>
   db (snd (deleteMemberById drv (Num i) w))
     = (db w)\<lparr>members := filter (\<lambda>r. fst r \<noteq> i) (members (db w)),
              member_preferred_event_types :=
                filter (\<lambda>r. fst r \<noteq> i) (member_preferred_event_types (db w)),
              member_events := filter (\<lambda>r. fst r \<noteq> i) (member_events (db w))\<rparr>"
  by (simp add: deleteMemberById_def try_catch_def sendResponse_def execute_def
      mysql_execute_def header_def outcome_def bnd_def lift_def ret_def send_def sendError_def
      filter_others_absent)

text \<open>
  C5. The claim is that deleting an existing member removes her registrations, her
  preferences and her row, and reports success. The rows do go, but the handler tests
  \<open>result.affectedRows\<close> on the gateway's \<open>{status, data}\<close> outcome, which has no such
  property: it answers 404, "Member not found", for the delete that succeeded, and its
  204 is never sent.
\<close>

theorem deleteMemberById_answers_404:
  "deleteMemberById mysql_up (Num 1) \<lparr>db = club_registered, sent = []\<rparr>
     = (Inr Undefined,
        \<lparr>db = club\<lparr>members := []\<rparr>, sent = [(Num 404, Str ''Member not found'')]\<rparr>)"
  by (simp add: deleteMemberById_def try_catch_def
      sendResponse_def execute_def mysql_execute_def mysql_up_def club_registered_def club_def
      header_def name_row_def outcome_def bnd_def lift_def ret_def send_def sendError_def
      show_int_1)

section \<open>Registering a member for an event\<close>

lemma sendResponse_checkMemberExists:
  "\<exists>status data. sendResponse drv (checkMemberExists p) ret (Num 200) w
      = (Inr (Obj [(''status'', status), (''data'', data)]), w)"
  by (cases "bind_id p")
     (auto simp: sendResponse_def execute_def mysql_execute_def outcome_def ret_def)

lemma registerMemberToEvent_throws:
  "truthy (number member_param) \<Longrightarrow> truthy (number event_param) \<Longrightarrow>
   registerMemberToEvent drv member_param event_param w = (Inl TypeError, w)"
proof -
  assume t: "truthy (number member_param)" "truthy (number event_param)"
  obtain status data where
    r: "sendResponse drv (checkMemberExists (number member_param)) ret (Num 200) w
          = (Inr (Obj [(''status'', status), (''data'', data)]), w)"
    using sendResponse_checkMemberExists by blast
  show ?thesis
    using t by (simp add: registerMemberToEvent_def bnd_def lift_def r)
qed

lemma registerMemberToEvent_db:
  "db (snd (registerMemberToEvent drv member_param event_param w)) = db w"
proof (cases "truthy (number member_param) \<and> truthy (number event_param)")
  case True
  then show ?thesis by (simp add: registerMemberToEvent_throws)
next
  case False
  then show ?thesis
    by (auto simp: registerMemberToEvent_def sendError_def send_def)
qed

text \<open>
  C1. The claim is that a registration without a matching preference is answered 400 and
  inserts nothing, and that with the preference it succeeds and inserts the row. The
  handler binds \<open>const [members] = await sendResponse(...)\<close>: the gateway's outcome is a
  plain object, not an iterable, so with valid ids the handler throws a TypeError at its
  first query. With the member and the event in the store it answers nothing and inserts
  nothing, whether the preference row is absent or present.
\<close>

theorem registerMemberToEvent_never_checks_preference:
  "registerMemberToEvent mysql_up (Num 1) (Num 1) \<lparr>db = club, sent = []\<rparr>
     = (Inl TypeError, \<lparr>db = club, sent = []\<rparr>) \<and>
   registerMemberToEvent mysql_up (Num 1) (Num 1) \<lparr>db = club_preferring, sent = []\<rparr>
     = (Inl TypeError, \<lparr>db = club_preferring, sent = []\<rparr>)"
  by (simp add: registerMemberToEvent_throws number_def)

lemma sendResponse_duplicate_registration:
  "(m, e) \<in> set (member_events (db w)) \<Longrightarrow>
   sendResponse drv (registerMemberEvent (Num m) (Num e)) tr st w
     = (Inr (outcome (Num 404) (Obj [(''message'', Str ''No data found'')])), w)"
  by (simp add: sendResponse_def execute_def mysql_execute_def)

text \<open>
  C2. The claim is that a second registration of the same member for the same event fails
  with Conflict("already registered") and leaves the table unchanged. The table is
  unchanged, but no Conflict is answered. With the row (1, 1) in \<open>member_events\<close> the
  handler throws at its first destructuring and sends nothing; and the insert its last
  line would send is refused by the composite primary key, the refusal is swallowed by
  \<open>execute\<close>, and the gateway hands back 404, "No data found", which that last line
  drops without replying.
\<close>

theorem second_registration_sends_no_conflict:
  "(1, 1) \<in> set (member_events club_registered) \<and>
   registerMemberToEvent mysql_up (Num 1) (Num 1) \<lparr>db = club_registered, sent = []\<rparr>
     = (Inl TypeError, \<lparr>db = club_registered, sent = []\<rparr>) \<and>
   mysql_execute mysql_up club_registered (registerMemberEvent (Num 1) (Num 1)) = Inl DupEntry \<and>
   sendResponse mysql_up (registerMemberEvent (Num 1) (Num 1))
       (\<lambda>r. ret (Obj [(''success'', Bool True)])) (Num 201) \<lparr>db = club_registered, sent = []\<rparr>
     = (Inr (Obj [(''status'', Num 404), (''data'', Obj [(''message'', Str ''No data found'')])]),
        \<lparr>db = club_registered, sent = []\<rparr>)"
  by (simp add: registerMemberToEvent_throws number_def sendResponse_duplicate_registration
      outcome_def mysql_execute_def mysql_up_def club_registered_def club_def)

section \<open>Updating a member\<close>

lemma sendResponse_updateMember:
  "reachable drv \<Longrightarrow> m \<in> fst ` set (members (db w)) \<Longrightarrow>
   sendResponse drv (updateMember n (Num m)) ret (Num 200) w
     = (Inr (outcome (Num 200)
          (Obj [(''message'',
                 Str (show_int (int (length (filter (\<lambda>r. fst r = m) (members (db w)))))
                      @ '' row(s) affected''))])),
        w\<lparr>db := (db w)\<lparr>members := map (\<lambda>r. if fst r = m then (m, n) else r) (members (db w))\<rparr>\<rparr>)"
  using filter_present [of m "members (db w)"]
  by (simp add: sendResponse_def execute_def mysql_execute_def header_def)

lemma sendResponse_deletePreferredEventTypes:
  "reachable drv \<Longrightarrow>
   sendResponse drv (deletePreferredEventTypes (Num m)) tr st w
     = (Inr (if filter (\<lambda>r. fst r = m) (member_preferred_event_types (db w)) = []
             then outcome (Num 404) (Obj [(''message'', Str ''No data found or affected'')])
             else outcome st
                    (Obj [(''message'',
                           Str (show_int (int (length (filter (\<lambda>r. fst r = m)
                                               (member_preferred_event_types (db w)))))
                                @ '' row(s) affected''))])),
        w\<lparr>db := (db w)\<lparr>member_preferred_event_types :=
                        filter (\<lambda>r. fst r \<noteq> m) (member_preferred_event_types (db w))\<rparr>\<rparr>)"
  by (simp add: sendResponse_def execute_def mysql_execute_def header_def)

lemma sendResponse_insertPreferredEventTypes:
  "sendResponse drv (insertPreferredEventTypes values) tr st w
     = (Inr (outcome (Num 404) (Obj [(''message'', Str ''No data found'')])), w)"
  by (simp add: sendResponse_def execute_def mysql_execute_def)

lemma has_items_prefs: "has_items (prefs_val b) = (prefs_list b \<noteq> [])"
  by (simp add: has_items_def prefs_val_def prefs_list_def split: option.splits)

lemma echo_prefs: "js_or (prefs_val b) (Arr []) = Arr (map Num (prefs_list b))"
  by (simp add: js_or_def prefs_val_def prefs_list_def split: option.splits)

text \<open>
  An update of an existing member, whatever list the request carries: her preference rows
  are deleted, none is inserted, and the 200 reply echoes the list.
\<close>

lemma updateMemberInfo_existing:
  assumes "reachable drv" and "name b = Some n" and "n \<noteq> []"
    and "m \<in> fst ` set (members (db w))"
  shows "updateMemberInfo drv (Num m) b w
     = (Inr Undefined,
        w\<lparr>db := (db w)
               \<lparr>members := map (\<lambda>r. if fst r = m then (m, n) else r) (members (db w)),
                member_preferred_event_types :=
                  filter (\<lambda>r. fst r \<noteq> m) (member_preferred_event_types (db w))\<rparr>,
          sent := sent w @
            [(Num 200,
              Obj [(''id'', Num m), (''name'', Str n),
                   (''preferredEventTypes'', Arr (map Num (prefs_list b)))])]\<rparr>)"
proof -
  have nm: "name_val b = Str n" "name_text b = n"
    using assms(2) by (simp_all add: name_val_def name_text_def)
  show ?thesis
    using assms(1,3,4)
    by (simp add: updateMemberInfo_def nm number_def bnd_def lift_def ret_def
        sendResponse_updateMember sendResponse_deletePreferredEventTypes
        sendResponse_insertPreferredEventTypes outcome_def
        has_items_prefs echo_prefs send_def)
qed

text \<open>
  C10. The claim is that an update of an existing member deletes her preference rows and
  rebuilds them from the request's list, so that a list left out or empty leaves her with
  none. The rows are deleted, but nothing is rebuilt: the insert goes through
  \<open>connection.execute\<close> as \<open>VALUES ?\<close>, the server refuses it, \<open>execute\<close> swallows the
  refusal and the handler does not look at the outcome. Ana prefers type 1; an update that
  restates the list [1] leaves her with no preference row, and is answered 200 with the
  list [1] echoed.
\<close>

theorem updateMemberInfo_loses_restated_preferences:
  "mysql_execute mysql_up
       (club_registered\<lparr>members := [(1, ''Ana Maria'')], member_preferred_event_types := []\<rparr>)
       (insertPreferredEventTypes [(Num 1, 1)]) = Inl ParseError \<and>
   updateMemberInfo mysql_up (Num 1)
       \<lparr>name = Some ''Ana Maria'', preferredEventTypes = Some [1]\<rparr>
       \<lparr>db = club_registered, sent = []\<rparr>
     = (Inr Undefined,
        \<lparr>db = club_registered\<lparr>members := [(1, ''Ana Maria'')],
                               member_preferred_event_types := []\<rparr>,
         sent = [(Num 200,
                  Obj [(''id'', Num 1), (''name'', Str ''Ana Maria''),
                       (''preferredEventTypes'', Arr [Num 1])])]\<rparr>)"
proof -
  have "reachable mysql_up"
    by (simp add: mysql_up_def)
  moreover have "1 \<in> fst ` set (members (db \<lparr>db = club_registered, sent = []\<rparr>))"
    by (simp add: club_registered_def club_def)
  ultimately have "updateMemberInfo mysql_up (Num 1)
       \<lparr>name = Some ''Ana Maria'', preferredEventTypes = Some [1]\<rparr>
       \<lparr>db = club_registered, sent = []\<rparr>
     = (Inr Undefined,
        \<lparr>db = club_registered\<lparr>members := [(1, ''Ana Maria'')],
                               member_preferred_event_types := []\<rparr>,
         sent = [(Num 200,
                  Obj [(''id'', Num 1), (''name'', Str ''Ana Maria''),
                       (''preferredEventTypes'', Arr [Num 1])])]\<rparr>)"
    using updateMemberInfo_existing
            [of mysql_up "\<lparr>name = Some ''Ana Maria'', preferredEventTypes = Some [1]\<rparr>"
               "''Ana Maria''" 1 "\<lparr>db = club_registered, sent = []\<rparr>"]
    by (simp add: club_registered_def club_def prefs_list_def)
  then show ?thesis
    by (simp add: mysql_execute_def mysql_up_def)
qed

end
